theory Spec2Isabelle
  imports Main "HOL-Library.Word" "HOL-Library.AList"
begin

section \<open>Buffers and exceptions\<close>

text \<open>
  A Node \<open>Buffer\<close> is a finite sequence of bytes. JavaScript numbers that occur in the
  serializer are non-negative integers and are modelled as \<open>nat\<close>. A thrown exception
  is a value: every fallible operation returns \<open>exn + 'a\<close>, with \<open>Inl\<close> the exception.
\<close>

type_synonym byte = "8 word"
type_synonym buffer = "byte list"

datatype exn = RangeError | Exn string

type_synonym 'a result = "exn + 'a"

section \<open>Writing and reading the fields of a buffer\<close>

text \<open>\<open>Buffer.alloc(n)\<close>: a zero-filled buffer of \<open>n\<close> bytes.\<close>

definition Buffer_alloc :: "nat \<Rightarrow> buffer" where
  "Buffer_alloc n = replicate n 0"

text \<open>
  \<open>buf.write(string, offset)\<close> for an ASCII string: the bytes of the string overwrite
  the buffer from \<open>offset\<close> on; bytes that do not fit are not written, the buffer keeps
  its length. An offset beyond the buffer raises a range error.
\<close>

definition overwrite :: "buffer \<Rightarrow> nat \<Rightarrow> buffer \<Rightarrow> buffer" where
  "overwrite bytes offset buf =
     take (length buf) (take offset buf @ bytes @ drop (offset + length bytes) buf)"

definition Buffer_write :: "string \<Rightarrow> nat \<Rightarrow> buffer \<Rightarrow> buffer result" where
  "Buffer_write str offset buf =
     (if offset > length buf then Inl RangeError
      else Inr (overwrite (map of_char str) offset buf))"

text \<open>
  \<open>buf.writeUInt32LE(value, offset)\<close> and \<open>buf.writeUInt16LE(value, offset)\<close>: Node
  checks that the value is in the range of the field and that the field lies inside
  the buffer, and raises a range error otherwise. The bytes are stored lowest first,
  each one the low eight bits of the value shifted right.
\<close>

definition writeUInt32LE :: "nat \<Rightarrow> nat \<Rightarrow> buffer \<Rightarrow> buffer result" where
  "writeUInt32LE val offset buf =
     (if val > 4294967295 then Inl RangeError
      else if offset + 4 > length buf then Inl RangeError
      else Inr (overwrite
             [of_nat val, of_nat (val div 256), of_nat (val div 65536),
              of_nat (val div 16777216)] offset buf))"

definition writeUInt16LE :: "nat \<Rightarrow> nat \<Rightarrow> buffer \<Rightarrow> buffer result" where
  "writeUInt16LE val offset buf =
     (if val > 65535 then Inl RangeError
      else if offset + 2 > length buf then Inl RangeError
      else Inr (overwrite [of_nat val, of_nat (val div 256)] offset buf))"

text \<open>Sequencing of statements that may throw: the first exception ends the block.\<close>

definition thenDo :: "'a result \<Rightarrow> ('a \<Rightarrow> 'b result) \<Rightarrow> 'b result" where
  "thenDo r f = (case r of Inl e \<Rightarrow> Inl e | Inr x \<Rightarrow> f x)"

text \<open>\<open>Buffer.concat(list)\<close>: the buffers of the list, one after the other.\<close>

definition Buffer_concat :: "buffer list \<Rightarrow> buffer" where
  "Buffer_concat bufs = concat bufs"

subsection \<open>Reading a header back\<close>

text \<open>
  \<open>buf.readUInt32LE(offset)\<close> and \<open>buf.readUInt16LE(offset)\<close>, the readers that are
  inverse to the writers above: a field outside the buffer raises a range error.
\<close>

definition readUInt32LE :: "nat \<Rightarrow> buffer \<Rightarrow> nat result" where
  "readUInt32LE offset buf =
     (if offset + 4 > length buf then Inl RangeError
      else Inr (unat (buf ! offset) + unat (buf ! (offset + 1)) * 256
                + unat (buf ! (offset + 2)) * 65536
                + unat (buf ! (offset + 3)) * 16777216))"

definition readUInt16LE :: "nat \<Rightarrow> buffer \<Rightarrow> nat result" where
  "readUInt16LE offset buf =
     (if offset + 2 > length buf then Inl RangeError
      else Inr (unat (buf ! offset) + unat (buf ! (offset + 1)) * 256))"

text \<open>
  Modelled from the spec: the repository has no reader for the container, so the
  header parser of the round-trip property is written from the layout table of the
  specification (channels at offset 22, sample rate at 24, bits per sample at 34,
  payload length at 40, all little-endian).
\<close>

record wavInfo =
  channels :: nat
  rate :: nat
  bits :: nat
  dataLength :: nat

definition parseWavHeader :: "buffer \<Rightarrow> wavInfo result" where
  "parseWavHeader buf =
     thenDo (readUInt16LE 22 buf) (\<lambda>ch.
     thenDo (readUInt32LE 24 buf) (\<lambda>sr.
     thenDo (readUInt16LE 34 buf) (\<lambda>bps.
     thenDo (readUInt32LE 40 buf) (\<lambda>len.
     Inr \<lparr>channels = ch, rate = sr, bits = bps, dataLength = len\<rparr>))))"

text \<open>
  The 44-byte header as the layout table of the specification gives it, for a payload
  of \<open>n\<close> bytes; \<open>uint32LE\<close> and \<open>uint16LE\<close> are the little-endian encodings of a
  field value.
\<close>

definition uint16LE :: "nat \<Rightarrow> buffer" where
  "uint16LE v = [of_nat (v mod 256), of_nat (v div 256 mod 256)]"

definition uint32LE :: "nat \<Rightarrow> buffer" where
  "uint32LE v = [of_nat (v mod 256), of_nat (v div 256 mod 256),
                 of_nat (v div 65536 mod 256), of_nat (v div 16777216 mod 256)]"

definition specHeader :: "nat \<Rightarrow> buffer" where
  "specHeader n =
     map of_char ''RIFF'' @ uint32LE (36 + n) @ map of_char ''WAVE'' @
     map of_char ''fmt '' @ uint32LE 16 @ uint16LE 1 @ uint16LE 2 @ uint32LE 48000 @
     uint32LE (48000 * (2 * (16 div 8))) @ uint16LE (2 * (16 div 8)) @ uint16LE 16 @
     map of_char ''data'' @ uint32LE n"

section \<open>The bot: session registry, effects, exceptions\<close>

text \<open>
  The registry \<open>audioQueues\<close> is a JavaScript \<open>Map\<close> from guild ids to queue objects.
  It is modelled as the insertion-ordered list of its entries: \<open>Map.set\<close> replaces the
  value of a key that is present and appends a new entry otherwise, \<open>Map.get\<close> returns
  the value of the first entry with the key, \<open>Map.delete\<close> removes the entries with the
  key. The values are references: a queue object lives in the heap, and a handler that
  holds a queue mutates that object. Calls into the platform, the file system, the
  language-model API and the console are recorded, in order, in \<open>effects\<close>; what such
  a call returns or throws is given by the environment of the handler invocation.
\<close>

type_synonym guildId = string
type_synonym ref = nat

record AudioQueue =
  connection :: nat
  audioChunks :: "buffer list"

datatype event =
    MessageReply string
  | ChannelSend string
  | JoinVoiceChannel string guildId
  | SpeakingOnStart nat guildId
  | ConnectionDestroy nat
  | FsWriteFile string buffer
  | FsStat string
  | FsUnlink string
  | TranscriptionsCreate string
  | SetTimeout nat
  | CompletionsCreate string
  | NewOpusScript nat nat
  | StreamNext
  | DecoderDelete
  | ConsoleLog string
  | ConsoleLogNum string nat
  | ConsoleLogHeader nat nat nat nat
  | ConsoleWarn string
  | ConsoleError string

record VoiceBot =
  audioQueues :: "(guildId \<times> ref) list"
  heap :: "ref \<Rightarrow> AudioQueue"
  nextRef :: ref
  effects :: "event list"

text \<open>The constructor: \<open>this.audioQueues = new Map()\<close>.\<close>

definition VoiceBot_new :: VoiceBot where
  "VoiceBot_new =
     \<lparr>audioQueues = [], heap = (\<lambda>_. \<lparr>connection = 0, audioChunks = []\<rparr>),
      nextRef = 0, effects = []\<rparr>"

text \<open>
  A statement sequence that may throw and that changes the bot: it returns the value
  or the exception, and the bot as it is at that moment.
\<close>

type_synonym 'a action = "VoiceBot \<Rightarrow> 'a result \<times> VoiceBot"

definition ret :: "'a \<Rightarrow> 'a action" where
  "ret x s = (Inr x, s)"

definition andThen :: "'a action \<Rightarrow> ('a \<Rightarrow> 'b action) \<Rightarrow> 'b action" where
  "andThen m f s = (case m s of (Inl e, s') \<Rightarrow> (Inl e, s') | (Inr x, s') \<Rightarrow> f x s')"

definition tryCatch :: "'a action \<Rightarrow> (exn \<Rightarrow> 'a action) \<Rightarrow> 'a action" where
  "tryCatch m h s = (case m s of (Inl e, s') \<Rightarrow> h e s' | (Inr x, s') \<Rightarrow> (Inr x, s'))"

definition tryFinally :: "'a action \<Rightarrow> unit action \<Rightarrow> 'a action" where
  "tryFinally m fin s =
     (case m s of (r, s') \<Rightarrow>
        (case fin s' of (Inl e, s'') \<Rightarrow> (Inl e, s'') | (Inr _, s'') \<Rightarrow> (r, s'')))"

text \<open>An external call: it is recorded, and its outcome is the one given.\<close>

definition effect :: "event \<Rightarrow> 'a result \<Rightarrow> 'a action" where
  "effect ev outcome s = (outcome, s\<lparr>effects := effects s @ [ev]\<rparr>)"

definition console_log :: "string \<Rightarrow> unit action" where
  "console_log msg = effect (ConsoleLog msg) (Inr ())"

definition console_warn :: "string \<Rightarrow> unit action" where
  "console_warn msg = effect (ConsoleWarn msg) (Inr ())"

definition console_error :: "string \<Rightarrow> unit action" where
  "console_error msg = effect (ConsoleError msg) (Inr ())"

text \<open>A computation that may throw and has no other effect, as an action.\<close>

definition liftResult :: "'a result \<Rightarrow> 'a action" where
  "liftResult r s = (r, s)"

subsection \<open>Container serializer: \<open>createWavBuffer\<close>\<close>

definition numChannels :: nat where "numChannels = 2"
definition sampleRate :: nat where "sampleRate = 48000"
definition bitsPerSample :: nat where "bitsPerSample = 16"
definition blockAlign :: nat where "blockAlign = numChannels * (bitsPerSample div 8)"
definition byteRate :: nat where "byteRate = sampleRate * blockAlign"

text \<open>
  The local \<open>wavHeader\<close> of \<open>createWavBuffer\<close> as the thirteen writes leave it, or the
  exception of the first write that throws.
\<close>

definition wavHeader :: "buffer \<Rightarrow> buffer result" where
  "wavHeader audioBuffer =
     thenDo (Buffer_write ''RIFF'' 0 (Buffer_alloc 44)) (\<lambda>h.
     thenDo (writeUInt32LE (36 + length audioBuffer) 4 h) (\<lambda>h.
     thenDo (Buffer_write ''WAVE'' 8 h) (\<lambda>h.
     thenDo (Buffer_write ''fmt '' 12 h) (\<lambda>h.
     thenDo (writeUInt32LE 16 16 h) (\<lambda>h.
     thenDo (writeUInt16LE 1 20 h) (\<lambda>h.
     thenDo (writeUInt16LE numChannels 22 h) (\<lambda>h.
     thenDo (writeUInt32LE sampleRate 24 h) (\<lambda>h.
     thenDo (writeUInt32LE byteRate 28 h) (\<lambda>h.
     thenDo (writeUInt16LE blockAlign 32 h) (\<lambda>h.
     thenDo (writeUInt16LE bitsPerSample 34 h) (\<lambda>h.
     thenDo (Buffer_write ''data'' 36 h) (\<lambda>h.
     writeUInt32LE (length audioBuffer) 40 h))))))))))))"

text \<open>
  \<open>createWavBuffer\<close>: the header is written, the console line with the channel count,
  the sample rate, the bits per sample and the data size is printed, and the header
  followed by the audio is returned.
\<close>

definition createWavBuffer :: "buffer \<Rightarrow> buffer action" where
  "createWavBuffer audioBuffer =
     andThen (liftResult (wavHeader audioBuffer)) (\<lambda>header.
     andThen (effect (ConsoleLogHeader numChannels sampleRate bitsPerSample
                        (length audioBuffer)) (Inr ())) (\<lambda>_.
     ret (Buffer_concat [header, audioBuffer])))"

subsection \<open>Messages and the environment\<close>

record VoiceBasedChannel =
  channel_id :: string
  channel_guild_id :: guildId

text \<open>
  \<open>voice_channel\<close> is \<open>message.member?.voice.channel\<close>, \<open>guild\<close> is \<open>message.guild?.id\<close>,
  \<open>channel_sender\<close> is present when \<open>message.channel && 'send' in message.channel\<close>
  holds; \<open>reply\<close> and the sender give the outcome of sending a text.
\<close>

record Message =
  voice_channel :: "VoiceBasedChannel option"
  guild :: "guildId option"
  channel_sender :: "(string \<Rightarrow> unit result) option"
  reply :: "string \<Rightarrow> unit result"

text \<open>
  The outcomes of the other external calls of one handler invocation:
  \<open>joinVoiceChannel\<close> (the connection), \<open>connection.destroy()\<close>, \<open>fs.writeFile\<close>,
  \<open>fs.stat\<close> (the size of the file), the transcription call of the loop iteration
  with the given index, the chat completion for a text (the content of the first choice,
  if any) and \<open>fs.unlink\<close>.
\<close>

record env =
  joinVoiceChannel_result :: "nat result"
  destroy_result :: "unit result"
  writeFile_result :: "unit result"
  stat_result :: "nat result"
  transcriptions_create :: "nat \<Rightarrow> string result"
  completions_create :: "string \<Rightarrow> string option result"
  unlink_result :: "unit result"

definition message_reply :: "Message \<Rightarrow> string \<Rightarrow> unit action" where
  "message_reply message text = effect (MessageReply text) (reply message text)"

definition message_channel_send :: "Message \<Rightarrow> string \<Rightarrow> unit action" where
  "message_channel_send message text =
     (case channel_sender message of
        None \<Rightarrow> ret ()
      | Some send \<Rightarrow> effect (ChannelSend text) (send text))"

subsection \<open>Session buffer operations\<close>

text \<open>
  \<open>queue.audioChunks.push(audioData)\<close>, the size computed by
  \<open>queue.audioChunks.reduce((acc, buf) => acc + buf.length, 0)\<close>, and the drain
  \<open>Buffer.concat(queue.audioChunks)\<close> (defined above).
\<close>

definition push :: "buffer list \<Rightarrow> buffer \<Rightarrow> buffer list" where
  "push chunks audioData = chunks @ [audioData]"

definition totalSize :: "buffer list \<Rightarrow> nat" where
  "totalSize chunks = foldl (\<lambda>acc buf. acc + length buf) 0 chunks"

definition queue_push :: "ref \<Rightarrow> buffer \<Rightarrow> unit action" where
  "queue_push queue audioData s =
     (Inr (), s\<lparr>heap := (heap s)(queue :=
        (heap s queue)\<lparr>audioChunks := push (audioChunks (heap s queue)) audioData\<rparr>)\<rparr>)"

subsection \<open>\<open>handleJoinCommand\<close>\<close>

definition audioQueues_set :: "guildId \<Rightarrow> AudioQueue \<Rightarrow> unit action" where
  "audioQueues_set guildId queue s =
     (Inr (), s\<lparr>heap := (heap s)(nextRef s := queue),
               audioQueues := AList.update guildId (nextRef s) (audioQueues s),
               nextRef := Suc (nextRef s)\<rparr>)"

definition handleJoinCommand :: "env \<Rightarrow> Message \<Rightarrow> unit action" where
  "handleJoinCommand environment message =
     (case voice_channel message of
        None \<Rightarrow> message_reply message ''You need to be in a voice channel first!''
      | Some voiceChannel \<Rightarrow>
          tryCatch
            (andThen (effect (JoinVoiceChannel (channel_id voiceChannel)
                                (channel_guild_id voiceChannel))
                        (joinVoiceChannel_result environment)) (\<lambda>conn.
             andThen (audioQueues_set (channel_guild_id voiceChannel)
                        \<lparr>connection = conn, audioChunks = []\<rparr>) (\<lambda>_.
             andThen (effect (SpeakingOnStart conn (channel_guild_id voiceChannel))
                        (Inr ())) (\<lambda>_.
             message_reply message ''Joined voice channel and started recording.''))))
            (\<lambda>error.
             andThen (console_error ''Error joining voice channel:'') (\<lambda>_.
             message_reply message ''Failed to join voice channel.'')))"

subsection \<open>\<open>handleAudioStream\<close>\<close>

text \<open>
  The codec is an external library. \<open>construct\<close> is the outcome of
  \<open>new OpusScript(48000, 2)\<close>: the state of the new decoder, or an exception.
  \<open>decode\<close> takes the state of the decoder and a frame and gives the next state,
  together with the exception thrown or the value returned, which is a buffer or a
  falsy value (\<open>None\<close>).
\<close>

record 'd OpusScript =
  construct :: "'d result"
  decode :: "'d \<Rightarrow> buffer \<Rightarrow> buffer option result \<times> 'd"

text \<open>
  What the stream yields is a \<open>Buffer\<close> or something else
  (\<open>chunk instanceof Buffer\<close>). A stream yields finitely many chunks and then ends,
  normally (after the silence duration) or with an exception.
\<close>

datatype chunk = BufferChunk buffer | OtherChunk

record AudioReceiveStream =
  chunks :: "chunk list"
  failure :: "exn option"

text \<open>\<open>Buffer.from(decoded)\<close> copies the bytes.\<close>

definition Buffer_from :: "buffer \<Rightarrow> buffer" where
  "Buffer_from decoded = decoded"

text \<open>
  The body of the loop for one chunk, with its own \<open>try\<close>/\<open>catch\<close> around the
  decoding. The result is the state of the decoder after the chunk.
\<close>

definition onChunk :: "'d OpusScript \<Rightarrow> ref \<Rightarrow> 'd \<Rightarrow> chunk \<Rightarrow> 'd action" where
  "onChunk opus queue decoder c =
     (case c of
        OtherChunk \<Rightarrow> ret decoder
      | BufferChunk b \<Rightarrow>
          andThen (effect (ConsoleLogNum ''Original chunk size (bytes)'' (length b))
                     (Inr ())) (\<lambda>_.
          (case decode opus decoder b of
             (Inl e, decoder') \<Rightarrow>
               andThen (console_warn ''Error decoding audio chunk:'') (\<lambda>_. ret decoder')
           | (Inr None, decoder') \<Rightarrow> ret decoder'
           | (Inr (Some decoded), decoder') \<Rightarrow>
               if length decoded > 0 then
                 andThen (queue_push queue (Buffer_from decoded)) (\<lambda>_.
                 andThen (\<lambda>s. effect (ConsoleLogNum ''Total audio size (bytes)''
                                 (totalSize (audioChunks (heap s queue)))) (Inr ()) s) (\<lambda>_.
                 ret decoder'))
               else ret decoder')))"

text \<open>\<open>for await (const chunk of audioStream)\<close>.\<close>

fun forAwait :: "'d OpusScript \<Rightarrow> ref \<Rightarrow> chunk list \<Rightarrow> exn option \<Rightarrow> 'd \<Rightarrow> 'd action" where
  "forAwait opus queue [] ending decoder =
     (case ending of None \<Rightarrow> ret decoder | Some e \<Rightarrow> effect StreamNext (Inl e))"
| "forAwait opus queue (c # cs) ending decoder =
     andThen (effect StreamNext (Inr ())) (\<lambda>_.
     andThen (onChunk opus queue decoder c) (\<lambda>decoder'.
     forAwait opus queue cs ending decoder'))"

definition handleAudioStream ::
  "'d OpusScript \<Rightarrow> AudioReceiveStream \<Rightarrow> guildId \<Rightarrow> unit action" where
  "handleAudioStream opus audioStream guildId s =
     (case map_of (audioQueues s) guildId of
        None \<Rightarrow> (Inr (), s)
      | Some queue \<Rightarrow>
          tryCatch
            (andThen (console_log ''Starting new audio stream'') (\<lambda>_.
             andThen (effect (NewOpusScript 48000 2) (construct opus)) (\<lambda>decoder.
             andThen (forAwait opus queue (chunks audioStream) (failure audioStream)
                        decoder) (\<lambda>_.
             effect DecoderDelete (Inr ())))))
            (\<lambda>error. console_error ''Error in audio stream handling:'') s)"

subsection \<open>\<open>transcribeAudio\<close> and \<open>summarizeText\<close>\<close>

text \<open>
  The retry loop \<open>for (let i = 0; i < maxRetries; i++)\<close>. The result is the text
  returned from inside the loop, or \<open>None\<close> when the loop is left at its end.
\<close>

function retryLoop :: "env \<Rightarrow> string \<Rightarrow> nat \<Rightarrow> nat \<Rightarrow> string option action" where
  "retryLoop environment filename maxRetries i s =
     (if i < maxRetries then
        (case effect (TranscriptionsCreate filename)
                (transcriptions_create environment i) s of
           (Inr text, s') \<Rightarrow> (Inr (Some text), s')
         | (Inl error, s') \<Rightarrow>
             if i < maxRetries - 1 then
               andThen (effect (SetTimeout (2 ^ i * 1000)) (Inr ())) (\<lambda>_.
               retryLoop environment filename maxRetries (Suc i)) s'
             else retryLoop environment filename maxRetries (Suc i) s')
      else (Inr None, s))"
  by pat_completeness auto
termination
  by (relation "measure (\<lambda>(environment, filename, maxRetries, i, s). maxRetries - i)") auto

declare retryLoop.simps [simp del]

definition transcribeAudio :: "env \<Rightarrow> string \<Rightarrow> string action" where
  "transcribeAudio environment filename =
     tryCatch
       (andThen (effect (FsStat filename) (stat_result environment)) (\<lambda>size.
        if size = 0 then ret ''No audio content recorded''
        else
          andThen (retryLoop environment filename 3 0) (\<lambda>r.
          (case r of
             Some text \<Rightarrow> ret text
           | None \<Rightarrow>
               andThen (console_error ''Final transcription error:'') (\<lambda>_.
               ret ''Failed to transcribe audio after multiple attempts'')))))
       (\<lambda>error.
        andThen (console_error ''Error in transcription process:'') (\<lambda>_.
        ret ''Error processing audio file''))"

text \<open>\<open>text.split(' ')\<close>: the pieces of the text between single spaces.\<close>

fun split_on :: "char \<Rightarrow> string \<Rightarrow> string list" where
  "split_on sep [] = [[]]"
| "split_on sep (c # cs) =
     (if c = sep then [] # split_on sep cs
      else (case split_on sep cs of
              [] \<Rightarrow> [[c]]
            | w # ws \<Rightarrow> (c # w) # ws))"

definition summarizeText :: "env \<Rightarrow> string \<Rightarrow> string action" where
  "summarizeText environment text =
     (if length (split_on CHR '' '' text) < 30 then
        ret ''Text too short to summarize meaningfully''
      else
        tryCatch
          (andThen (effect (CompletionsCreate text) (completions_create environment text))
             (\<lambda>content.
                (case content of
                   None \<Rightarrow> ret ''Failed to generate summary''
                 | Some c \<Rightarrow> if c \<noteq> [] then ret c else ret ''Failed to generate summary'')))
          (\<lambda>error.
           andThen (console_error ''Error summarizing text:'') (\<lambda>_.
           ret ''Failed to generate summary'')))"

subsection \<open>\<open>handleLeaveCommand\<close>\<close>

text \<open>
  The text in front of the summary: a memo sign (four bytes in UTF-8), the heading and
  a line feed.
\<close>

definition summaryHeading :: string where
  "summaryHeading =
     [CHR 0xF0, CHR 0x9F, CHR 0x93, CHR 0x9D] @ '' **Summary of the conversation:**''
     @ [CHR 0x0A]"

text \<open>
  The inner \<open>try\<close> of the leave command with its \<open>finally\<close>: the file is
  transcribed, the summary or the text about no clear speech is sent, and the file is
  removed in every case.
\<close>

definition transcribeAndReport :: "env \<Rightarrow> Message \<Rightarrow> string \<Rightarrow> unit action" where
  "transcribeAndReport environment message filename =
     tryFinally
       (andThen (transcribeAudio environment filename)
          (\<lambda>transcription.
             if transcription \<noteq> [] \<and> transcription \<noteq> ''Failed to transcribe audio'' then
               andThen (summarizeText environment transcription) (\<lambda>summary.
               message_channel_send message (summaryHeading @ summary))
             else
               message_channel_send message
                 ''No clear speech detected in the recording.''))
       (tryCatch
          (effect (FsUnlink filename) (unlink_result environment))
          (\<lambda>error. console_error []))"

text \<open>The branch \<open>if (queue.audioChunks.length > 0)\<close> of the leave command.\<close>

definition processRecording :: "env \<Rightarrow> Message \<Rightarrow> guildId \<Rightarrow> ref \<Rightarrow> unit action" where
  "processRecording environment message guildId queue =
     andThen (\<lambda>s. createWavBuffer (Buffer_concat (audioChunks (heap s queue))) s)
       (\<lambda>wavBuffer.
     andThen (effect (FsWriteFile (''recording_'' @ guildId @ ''.wav'') wavBuffer)
                (writeFile_result environment)) (\<lambda>_.
     transcribeAndReport environment message (''recording_'' @ guildId @ ''.wav'')))"

definition audioQueues_delete :: "guildId \<Rightarrow> unit action" where
  "audioQueues_delete guildId s =
     (Inr (), s\<lparr>audioQueues := AList.delete guildId (audioQueues s)\<rparr>)"

definition handleLeaveCommand :: "env \<Rightarrow> Message \<Rightarrow> unit action" where
  "handleLeaveCommand environment message s =
     (case guild message of
        None \<Rightarrow> (Inr (), s)
      | Some guildId \<Rightarrow>
          if guildId = [] then (Inr (), s)
          else
            (case map_of (audioQueues s) guildId of
               None \<Rightarrow> message_reply message ''Not currently in a voice channel.'' s
             | Some queue \<Rightarrow>
                 tryCatch
                   (andThen (effect (ConnectionDestroy (connection (heap s queue)))
                               (destroy_result environment)) (\<lambda>_.
                    andThen (\<lambda>s'. if length (audioChunks (heap s' queue)) > 0
                                   then processRecording environment message guildId queue s'
                                   else message_reply message ''No audio was recorded.'' s')
                      (\<lambda>_.
                    andThen (audioQueues_delete guildId) (\<lambda>_.
                    message_reply message ''Left voice channel.''))))
                   (\<lambda>error.
                    andThen (console_error ''Error processing recording:'') (\<lambda>_.
                    message_reply message ''Failed to process recording.'')) s))"

subsection \<open>Sequences of handler invocations\<close>

text \<open>
  The bot reacts to join commands, leave commands and speaking turns. Each invocation
  of a handler runs on the bot as the one before left it; a handler whose promise is
  rejected leaves the bot as it was when the exception escaped.
\<close>

datatype 'd invocation =
    Join env Message
  | Leave env Message
  | Speaking "'d OpusScript" AudioReceiveStream guildId

fun invoke :: "'d invocation \<Rightarrow> unit action" where
  "invoke (Join environment message) = handleJoinCommand environment message"
| "invoke (Leave environment message) = handleLeaveCommand environment message"
| "invoke (Speaking opus audioStream guildId) = handleAudioStream opus audioStream guildId"

fun run :: "'d invocation list \<Rightarrow> VoiceBot \<Rightarrow> VoiceBot" where
  "run [] s = s"
| "run (c # cs) s = run cs (snd (invoke c s))"

subsection \<open>Concrete inputs\<close>

text \<open>
  An environment in which every external call succeeds, a message sent in a guild by a
  member who is in no voice channel, a bot with one session that has recorded one chunk
  of two bytes, a codec that rejects the empty frame and returns every other frame
  as its own decoding, and a message sent by a member who is in a voice channel of the
  guild.
\<close>

definition calm_env :: env where
  "calm_env =
     \<lparr>joinVoiceChannel_result = Inr 7, destroy_result = Inr (), writeFile_result = Inr (),
      stat_result = Inr 46, transcriptions_create = (\<lambda>i. Inr ''hello''),
      completions_create = (\<lambda>t. Inr (Some ''a summary'')), unlink_result = Inr ()\<rparr>"

definition guild_message :: "guildId \<Rightarrow> Message" where
  "guild_message g =
     \<lparr>voice_channel = None, guild = Some g,
      channel_sender = Some (\<lambda>t. Inr ()), reply = (\<lambda>t. Inr ())\<rparr>"

definition recording_bot :: VoiceBot where
  "recording_bot =
     \<lparr>audioQueues = [(''g'', 0)],
      heap = (\<lambda>_. \<lparr>connection = 7, audioChunks = [[1, 2]]\<rparr>),
      nextRef = 1, effects = []\<rparr>"

definition echo_codec :: "nat OpusScript" where
  "echo_codec =
     \<lparr>construct = Inr 0,
      decode = (\<lambda>d frame. (if frame = [] then Inl (Exn ''corrupt'') else Inr (Some frame),
                           Suc d))\<rparr>"

definition voice_message :: "guildId \<Rightarrow> Message" where
  "voice_message g =
     \<lparr>voice_channel = Some \<lparr>channel_id = ''c'', channel_guild_id = g\<rparr>, guild = Some g,
      channel_sender = Some (\<lambda>t. Inr ()), reply = (\<lambda>t. Inr ())\<rparr>"

subsection \<open>What the specification says, as functions\<close>

text \<open>
  Parsing the header back out of the serialized payload: the serializer, then the
  parser of the layout table.
\<close>

definition roundTrip :: "buffer \<Rightarrow> wavInfo action" where
  "roundTrip payload =
     andThen (createWavBuffer payload) (\<lambda>container. liftResult (parseWavHeader container))"

text \<open>
  The chunks that a subscription is to append, in the words of the specification: for
  each inbound frame, in order, the decoding of the frame if the decoding succeeds and
  yields one or more samples. The decoder is the one of the subscription, in the state
  in which the frames before have left it.
\<close>

fun decodedChunks :: "'d OpusScript \<Rightarrow> 'd \<Rightarrow> chunk list \<Rightarrow> buffer list" where
  "decodedChunks opus d [] = []"
| "decodedChunks opus d (OtherChunk # cs) = decodedChunks opus d cs"
| "decodedChunks opus d (BufferChunk b # cs) =
     (case decode opus d b of
        (Inr (Some pcm), d') \<Rightarrow>
          if pcm = [] then decodedChunks opus d' cs else pcm # decodedChunks opus d' cs
      | (_, d') \<Rightarrow> decodedChunks opus d' cs)"

subsection \<open>Properties of the registry that an action keeps\<close>

text \<open>
  An action keeps a property of the registry when the property holds after the action,
  however it ends, if it held before.
\<close>

definition keeps :: "((guildId \<times> ref) list \<Rightarrow> bool) \<Rightarrow> 'a action \<Rightarrow> bool" where
  "keeps Q m = (\<forall>s. Q (audioQueues s) \<longrightarrow> Q (audioQueues (snd (m s))))"

section \<open>The container serializer\<close>

lemma Buffer_alloc_44:
  "Buffer_alloc 44 = [0,0,0,0,0,0,0,0,0,0,0,0,0,0,0,0,0,0,0,0,0,0,
                      0,0,0,0,0,0,0,0,0,0,0,0,0,0,0,0,0,0,0,0,0,0]"
  by (simp add: Buffer_alloc_def numeral_eq_Suc)

lemma byte_of_nat_mod: "(of_nat (v mod 256) :: byte) = of_nat v"
  by (simp add: word_of_nat_eq_iff take_bit_eq_mod)

text \<open>A value below \<open>2 ^ 32\<close> is the sum of its four base-256 digits.\<close>

lemma le32_sum:
  assumes "v < 4294967296"
  shows "v mod 256 + v div 256 mod 256 * 256 + v div 65536 mod 256 * 65536
         + v div 16777216 mod 256 * 16777216 = (v::nat)"
proof -
  define a where "a = v div 256"
  define b where "b = a div 256"
  define c where "c = b div 256"
  have b: "v div 65536 = b"
    unfolding b_def a_def by (simp add: div_mult2_eq [symmetric])
  have c: "v div 16777216 = c"
    unfolding c_def b_def a_def by (simp add: div_mult2_eq [symmetric])
  have "c < 256" using assms unfolding c [symmetric] by simp
  then have c3: "c mod 256 = c" by simp
  have 1: "v = v mod 256 + a * 256" unfolding a_def by simp
  have 2: "a = a mod 256 + b * 256" unfolding b_def by simp
  have 3: "b = b mod 256 + c * 256" unfolding c_def by simp
  have "v mod 256 + (a mod 256) * 256 + (b mod 256) * 65536 + c * 16777216 = v"
    using 1 2 3 by linarith
  then show ?thesis using c3 by (simp add: b c a_def [symmetric])
qed

text \<open>
  The thirteen writes of \<open>createWavBuffer\<close> produce the header of the layout table,
  as long as both size fields fit in 32 bits; otherwise the write of the first size
  field throws.
\<close>

lemma wavHeader_bytes:
  assumes "length p \<le> 4294967259"
  shows "wavHeader p = Inr (specHeader (length p))"
  using assms
  by (simp add: wavHeader_def Buffer_alloc_44 thenDo_def Buffer_write_def
      writeUInt32LE_def writeUInt16LE_def overwrite_def numChannels_def sampleRate_def
      bitsPerSample_def blockAlign_def byteRate_def specHeader_def
      uint32LE_def uint16LE_def byte_of_nat_mod)

lemma wavHeader_too_long:
  assumes "4294967259 < length p"
  shows "wavHeader p = Inl RangeError"
  using assms
  by (simp add: wavHeader_def Buffer_alloc_44 thenDo_def Buffer_write_def
      writeUInt32LE_def overwrite_def)

lemma format_values:
  "numChannels = 2" "sampleRate = 48000" "bitsPerSample = 16" "blockAlign = 4"
  "byteRate = 192000"
  by (simp_all add: numChannels_def sampleRate_def bitsPerSample_def blockAlign_def
      byteRate_def)

lemma createWavBuffer_bytes:
  assumes "length p \<le> 4294967259"
  shows "createWavBuffer p s =
           (Inr (specHeader (length p) @ p),
            s\<lparr>effects := effects s @ [ConsoleLogHeader 2 48000 16 (length p)]\<rparr>)"
  by (simp add: createWavBuffer_def wavHeader_bytes [OF assms] andThen_def liftResult_def
      effect_def ret_def Buffer_concat_def format_values)

lemma createWavBuffer_too_long:
  assumes "4294967259 < length p"
  shows "createWavBuffer p s = (Inl RangeError, s)"
  by (simp add: createWavBuffer_def wavHeader_too_long [OF assms] andThen_def
      liftResult_def)

lemma length_specHeader: "length (specHeader n) = 44"
  by (simp add: specHeader_def uint32LE_def uint16LE_def)

lemma read_chunk_size:
  "n \<le> 4294967259 \<Longrightarrow> readUInt32LE 4 (specHeader n @ p) = Inr (36 + n)"
  using le32_sum [of "36 + n"]
  by (simp add: readUInt32LE_def specHeader_def uint32LE_def uint16LE_def unat_of_nat)

lemma read_data_size:
  "n \<le> 4294967259 \<Longrightarrow> readUInt32LE 40 (specHeader n @ p) = Inr n"
  using le32_sum [of "n"]
  by (simp add: readUInt32LE_def specHeader_def uint32LE_def uint16LE_def unat_of_nat)

lemma read_format_fields:
  "readUInt16LE 20 (specHeader n @ p) = Inr 1"
  "readUInt16LE 22 (specHeader n @ p) = Inr 2"
  "readUInt32LE 24 (specHeader n @ p) = Inr 48000"
  "readUInt32LE 28 (specHeader n @ p) = Inr 192000"
  "readUInt16LE 32 (specHeader n @ p) = Inr 4"
  "readUInt16LE 34 (specHeader n @ p) = Inr 16"
  by (simp_all add: readUInt32LE_def readUInt16LE_def specHeader_def uint32LE_def
      uint16LE_def)

lemma layout_in_range:
  assumes "length payload \<le> 4294967259"
  shows "\<exists>header. createWavBuffer payload s =
             (Inr (header @ payload),
              s\<lparr>effects := effects s @ [ConsoleLogHeader 2 48000 16 (length payload)]\<rparr>)
           \<and> length header = 44
           \<and> header = specHeader (length payload)
           \<and> readUInt32LE 4 (header @ payload) = Inr (36 + length payload)
           \<and> readUInt32LE 40 (header @ payload) = Inr (length payload)
           \<and> readUInt16LE 20 (header @ payload) = Inr 1
           \<and> readUInt16LE 22 (header @ payload) = Inr numChannels \<and> numChannels = 2
           \<and> readUInt32LE 24 (header @ payload) = Inr sampleRate \<and> sampleRate = 48000
           \<and> readUInt16LE 34 (header @ payload) = Inr bitsPerSample \<and> bitsPerSample = 16
           \<and> readUInt16LE 32 (header @ payload) = Inr blockAlign
           \<and> blockAlign = numChannels * (bitsPerSample div 8) \<and> blockAlign = 4
           \<and> readUInt32LE 28 (header @ payload) = Inr byteRate
           \<and> byteRate = sampleRate * blockAlign \<and> byteRate = 192000"
  using assms createWavBuffer_bytes [OF assms, of s]
    read_chunk_size [of "length payload" payload]
    read_data_size [of "length payload" payload]
  by (simp add: length_specHeader read_format_fields format_values)

text \<open>
  C4, as the code has it. For every payload of at most 4294967259 bytes, the empty
  payload included, \<open>createWavBuffer\<close> returns a header of exactly 44 bytes followed
  by the payload. The header is the one of the layout table: read back little-endian,
  the field at offset 4 is 36 plus the payload length, the field at offset 40 is the
  payload length, the format tag is 1, there are 2 channels, the sample rate is 48000,
  the sample width is 16 bits, the block align is channels times bytes per sample,
  which is 4, and the byte rate is sample rate times block align, which is 192000.
  For every longer payload the write of the size field at offset 4 raises a range
  error: nothing is returned, and nothing else happens.
\<close>

theorem createWavBuffer_layout:
  "(length payload \<le> 4294967259 \<longrightarrow>
      (\<exists>header. createWavBuffer payload s =
             (Inr (header @ payload),
              s\<lparr>effects := effects s @ [ConsoleLogHeader 2 48000 16 (length payload)]\<rparr>)
           \<and> length header = 44
           \<and> header = specHeader (length payload)
           \<and> readUInt32LE 4 (header @ payload) = Inr (36 + length payload)
           \<and> readUInt32LE 40 (header @ payload) = Inr (length payload)
           \<and> readUInt16LE 20 (header @ payload) = Inr 1
           \<and> readUInt16LE 22 (header @ payload) = Inr numChannels \<and> numChannels = 2
           \<and> readUInt32LE 24 (header @ payload) = Inr sampleRate \<and> sampleRate = 48000
           \<and> readUInt16LE 34 (header @ payload) = Inr bitsPerSample \<and> bitsPerSample = 16
           \<and> readUInt16LE 32 (header @ payload) = Inr blockAlign
           \<and> blockAlign = numChannels * (bitsPerSample div 8) \<and> blockAlign = 4
           \<and> readUInt32LE 28 (header @ payload) = Inr byteRate
           \<and> byteRate = sampleRate * blockAlign \<and> byteRate = 192000))
   \<and> (4294967259 < length payload \<longrightarrow>
        createWavBuffer payload s = (Inl RangeError, s))"
  using layout_in_range [of payload s] createWavBuffer_too_long [of payload s]
  by blast

text \<open>
  The theorem of C4 at the payload of the three bytes 1, 2, 3, with the 44 bytes of
  the header and the two size fields 39 and 3, and at a payload of 5000000000 bytes.
\<close>

theorem createWavBuffer_layout_witness:
  "length [1, 2, 3 :: byte] \<le> 4294967259
   \<and> fst (createWavBuffer [1, 2, 3] VoiceBot_new) =
       Inr ([0x52, 0x49, 0x46, 0x46, 39, 0, 0, 0, 0x57, 0x41, 0x56, 0x45,
             0x66, 0x6D, 0x74, 0x20, 16, 0, 0, 0, 1, 0, 2, 0,
             0x80, 0xBB, 0, 0, 0x00, 0xEE, 0x02, 0x00, 4, 0, 16, 0,
             0x64, 0x61, 0x74, 0x61, 3, 0, 0, 0] @ [1, 2, 3])
   \<and> readUInt32LE 4 (specHeader 3 @ [1, 2, 3]) = Inr 39
   \<and> readUInt32LE 40 (specHeader 3 @ [1, 2, 3]) = Inr 3
   \<and> 4294967259 < length (replicate 5000000000 (0 :: byte))
   \<and> createWavBuffer (replicate 5000000000 0) VoiceBot_new = (Inl RangeError, VoiceBot_new)"
proof -
  have len: "length [1, 2, 3 :: byte] \<le> 4294967259" by simp
  have l3: "length [1, 2, 3 :: byte] = 3" by simp
  have long: "4294967259 < length (replicate 5000000000 (0 :: byte))" by simp
  have sh: "specHeader 3 =
       [0x52, 0x49, 0x46, 0x46, 39, 0, 0, 0, 0x57, 0x41, 0x56, 0x45,
        0x66, 0x6D, 0x74, 0x20, 16, 0, 0, 0, 1, 0, 2, 0,
        0x80, 0xBB, 0, 0, 0x00, 0xEE, 0x02, 0x00, 4, 0, 16, 0,
        0x64, 0x61, 0x74, 0x61, 3, 0, 0, 0]"
    by (simp add: specHeader_def uint32LE_def uint16LE_def)
  from createWavBuffer_layout [of "[1, 2, 3]" VoiceBot_new] len
  have "fst (createWavBuffer [1, 2, 3] VoiceBot_new) = Inr (specHeader 3 @ [1, 2, 3])
        \<and> readUInt32LE 4 (specHeader 3 @ [1, 2, 3]) = Inr (36 + 3)
        \<and> readUInt32LE 40 (specHeader 3 @ [1, 2, 3]) = Inr 3"
    unfolding l3 by auto
  moreover from createWavBuffer_layout [of "replicate 5000000000 0" VoiceBot_new] long
  have "createWavBuffer (replicate 5000000000 0) VoiceBot_new = (Inl RangeError, VoiceBot_new)"
    by blast
  ultimately show ?thesis using len long by (simp add: sh)
qed

text \<open>
  C4 as stated, for every payload, fails: for a payload of 4294967260 bytes the value
  36 plus the payload length is \<open>2 ^ 32\<close>, the write of the field at offset 4 raises a
  range error, and no header is produced.
\<close>

theorem createWavBuffer_too_long_counterexample:
  "fst (createWavBuffer (replicate 4294967260 0) VoiceBot_new) = Inl RangeError"
  by (simp add: createWavBuffer_def wavHeader_def Buffer_alloc_44 thenDo_def
      Buffer_write_def writeUInt32LE_def overwrite_def andThen_def liftResult_def)

text \<open>
  C5, as the code has it. The serializer is deterministic: what it returns or throws
  depends on the payload alone, not on the bot. It is not free of effects: it prints
  one console line when the header has been written; it changes nothing else, neither
  the registry nor a queue object. And it round-trips for every payload of at most
  4294967259 bytes, the empty payload included: parsing the header of the serialized
  payload recovers 2 channels, the sample rate 48000, 16 bits per sample and a payload
  length equal to the length of the payload, and the bytes after the header are the
  payload. A longer payload is not serialized, so there is nothing to parse.
\<close>

theorem wav_round_trip:
  "fst (createWavBuffer payload s) = fst (createWavBuffer payload s')
   \<and> audioQueues (snd (createWavBuffer payload s)) = audioQueues s
   \<and> heap (snd (createWavBuffer payload s)) = heap s
   \<and> nextRef (snd (createWavBuffer payload s)) = nextRef s
   \<and> effects (snd (createWavBuffer payload s)) =
       effects s @ (if length payload \<le> 4294967259
                    then [ConsoleLogHeader 2 48000 16 (length payload)] else [])
   \<and> (length payload \<le> 4294967259 \<longrightarrow>
        fst (roundTrip payload s) =
          Inr \<lparr>channels = 2, rate = 48000, bits = 16, dataLength = length payload\<rparr>
        \<and> fst (andThen (createWavBuffer payload) (\<lambda>container. ret (drop 44 container)) s) =
            Inr payload)
   \<and> (4294967259 < length payload \<longrightarrow> fst (roundTrip payload s) = Inl RangeError)"
proof (cases "length payload \<le> 4294967259")
  case True
  then have short: "\<not> 4294967259 < length payload" by simp
  from read_data_size [OF True, of payload] show ?thesis
    by (simp add: True short createWavBuffer_bytes [OF True] roundTrip_def andThen_def
        liftResult_def ret_def parseWavHeader_def thenDo_def read_format_fields
        length_specHeader)
next
  case False
  then have long: "4294967259 < length payload" by simp
  show ?thesis
    by (simp add: False long createWavBuffer_too_long [OF long] roundTrip_def andThen_def)
qed

text \<open>
  The theorem of C5 at a payload of five bytes and at the empty payload, for the bot
  with one session.
\<close>

theorem wav_round_trip_witness:
  "length [9, 8, 7, 6, 5 :: byte] \<le> 4294967259
   \<and> fst (roundTrip [9, 8, 7, 6, 5] recording_bot) =
       Inr \<lparr>channels = 2, rate = 48000, bits = 16, dataLength = 5\<rparr>
   \<and> fst (andThen (createWavBuffer [9, 8, 7, 6, 5]) (\<lambda>container. ret (drop 44 container))
            recording_bot) = Inr [9, 8, 7, 6, 5]
   \<and> effects (snd (createWavBuffer [9, 8, 7, 6, 5] recording_bot)) =
       [ConsoleLogHeader 2 48000 16 5]
   \<and> fst (roundTrip [] recording_bot) =
       Inr \<lparr>channels = 2, rate = 48000, bits = 16, dataLength = 0\<rparr>
   \<and> 4294967259 < length (replicate 5000000000 (0 :: byte))
   \<and> fst (roundTrip (replicate 5000000000 0) recording_bot) = Inl RangeError"
  using wav_round_trip [of "[9, 8, 7, 6, 5]" recording_bot recording_bot]
    wav_round_trip [of "[]" recording_bot recording_bot]
    wav_round_trip [of "replicate 5000000000 0" recording_bot recording_bot]
  by (simp add: recording_bot_def)

text \<open>
  C5 as stated fails twice. The serializer has an effect: serializing the empty
  payload adds a console line to the effects of a new bot. And the round trip does not
  hold for any payload: a payload of 4294967260 bytes is not serialized, so the parsed
  header with that payload length is not what comes back.
\<close>

theorem wav_round_trip_counterexample:
  "effects (snd (createWavBuffer [] VoiceBot_new)) \<noteq> effects VoiceBot_new
   \<and> fst (roundTrip (replicate 4294967260 0) VoiceBot_new) \<noteq>
       Inr \<lparr>channels = 2, rate = 48000, bits = 16, dataLength = 4294967260\<rparr>"
  by (simp add: roundTrip_def createWavBuffer_def wavHeader_def Buffer_alloc_44 thenDo_def
      Buffer_write_def writeUInt32LE_def writeUInt16LE_def overwrite_def andThen_def
      liftResult_def effect_def ret_def VoiceBot_new_def format_values)

section \<open>The session buffer: push, total size and drain\<close>

lemma foldl_push: "foldl push chunks0 cs = chunks0 @ cs"
  by (induction cs arbitrary: chunks0) (simp_all add: push_def)

lemma totalSize_from:
  "foldl (\<lambda>acc buf. acc + length buf) a xs = a + sum_list (map length xs)"
  by (induction xs arbitrary: a) simp_all

lemma totalSize_sum: "totalSize xs = sum_list (map length xs)"
  by (simp add: totalSize_def totalSize_from)

lemma heap_pushes:
  "audioChunks (heap (foldl (\<lambda>s c. snd (queue_push q c s)) s cs) q) =
     foldl push (audioChunks (heap s q)) cs"
  by (induction cs arbitrary: s) (simp_all add: queue_push_def)

section \<open>The command handlers\<close>

lemmas act_defs = ret_def andThen_def tryCatch_def tryFinally_def effect_def
  console_log_def console_warn_def console_error_def message_reply_def
  message_channel_send_def liftResult_def

text \<open>
  C8. A join request of a member who is in no voice channel only issues the reply
  with the error text: the registry and the queue objects are as before, and
  \<open>joinVoiceChannel\<close> is not called. The handler ends as the reply does.
\<close>

theorem join_without_channel:
  assumes "voice_channel message = None"
  shows "handleJoinCommand environment message s =
           (reply message ''You need to be in a voice channel first!'',
            s\<lparr>effects := effects s @
                 [MessageReply ''You need to be in a voice channel first!'']\<rparr>)
         \<and> audioQueues (snd (handleJoinCommand environment message s)) = audioQueues s
         \<and> heap (snd (handleJoinCommand environment message s)) = heap s
         \<and> (\<forall>c g. JoinVoiceChannel c g \<notin> set (effects s) \<longrightarrow>
                JoinVoiceChannel c g
                  \<notin> set (effects (snd (handleJoinCommand environment message s))))"
  using assms by (simp add: handleJoinCommand_def act_defs)

text \<open>The theorem of C8 for a new bot.\<close>

theorem join_without_channel_witness:
  "voice_channel (guild_message ''g'') = None
   \<and> handleJoinCommand calm_env (guild_message ''g'') VoiceBot_new =
       (Inr (), VoiceBot_new
          \<lparr>effects := [MessageReply ''You need to be in a voice channel first!'']\<rparr>)
   \<and> audioQueues (snd (handleJoinCommand calm_env (guild_message ''g'') VoiceBot_new)) = []"
proof -
  have h: "voice_channel (guild_message ''g'') = None" by (simp add: guild_message_def)
  from join_without_channel [OF h, of calm_env VoiceBot_new] h
  show ?thesis by (simp add: guild_message_def VoiceBot_new_def)
qed

text \<open>
  C10. A speaking turn for a guild that has no entry in the registry returns at once
  and leaves the bot as it is: no decoder is constructed, nothing is read from the
  stream, no queue object changes.
\<close>

theorem stream_without_session:
  assumes "map_of (audioQueues s) guildId = None"
  shows "handleAudioStream opus audioStream guildId s = (Inr (), s)"
  using assms by (simp add: handleAudioStream_def)

text \<open>The theorem of C10 for a new bot and a stream of one frame.\<close>

theorem stream_without_session_witness:
  "map_of (audioQueues VoiceBot_new) ''g'' = None
   \<and> handleAudioStream echo_codec \<lparr>chunks = [BufferChunk [1]], failure = None\<rparr> ''g''
        VoiceBot_new = (Inr (), VoiceBot_new)"
proof -
  have h: "map_of (audioQueues VoiceBot_new) ''g'' = None" by (simp add: VoiceBot_new_def)
  from stream_without_session [OF h] h show ?thesis by simp
qed

lemma wav_of_two:
  "createWavBuffer [1, 2] s =
     (Inr (specHeader 2 @ [1, 2]), s\<lparr>effects := effects s @ [ConsoleLogHeader 2 48000 16 2]\<rparr>)"
  using createWavBuffer_bytes [of "[1, 2]" s] by (simp add: numeral_2_eq_2)

text \<open>
  C1 says that a leave command on a key with a session removes the entry even when
  the downstream sequence throws. Here the session has recorded two bytes and the
  write of the file fails: the connection is destroyed, the exception is caught at the
  end of the handler, and the entry of the guild is still in the registry.
\<close>

theorem leave_keeps_session_when_write_fails:
  "handleLeaveCommand (calm_env\<lparr>writeFile_result := Inl (Exn ''ENOSPC'')\<rparr>)
     (guild_message ''g'') recording_bot =
   (Inr (), recording_bot
      \<lparr>effects := [ConnectionDestroy 7,
                   ConsoleLogHeader 2 48000 16 2,
                   FsWriteFile ''recording_g.wav'' (specHeader 2 @ [1, 2]),
                   ConsoleError ''Error processing recording:'',
                   MessageReply ''Failed to process recording.'']\<rparr>)
   \<and> map_of (audioQueues (snd (handleLeaveCommand
         (calm_env\<lparr>writeFile_result := Inl (Exn ''ENOSPC'')\<rparr>)
         (guild_message ''g'') recording_bot))) ''g'' = Some 0"
  by (simp add: handleLeaveCommand_def processRecording_def act_defs calm_env_def
      guild_message_def recording_bot_def Buffer_concat_def wav_of_two)

subsection \<open>Transcription that fails three times\<close>

text \<open>
  When the first three transcription calls fail, the loop makes exactly these three
  calls, waits 1000 ms after the first and 2000 ms after the second, and is left at
  its end.
\<close>

lemma retryLoop_all_fail:
  assumes "transcriptions_create environment 0 = Inl e0"
    and "transcriptions_create environment 1 = Inl e1"
    and "transcriptions_create environment 2 = Inl e2"
  shows "retryLoop environment filename 3 0 s =
           (Inr None, s\<lparr>effects := effects s @
              [TranscriptionsCreate filename, SetTimeout 1000,
               TranscriptionsCreate filename, SetTimeout 2000,
               TranscriptionsCreate filename]\<rparr>)"
proof -
  have 3: "n \<le> i \<Longrightarrow> retryLoop environment filename n i t = (Inr None, t)" for n i t
    by (subst retryLoop.simps) simp
  have 2: "retryLoop environment filename 3 (Suc (Suc 0)) t =
             (Inr None, t\<lparr>effects := effects t @ [TranscriptionsCreate filename]\<rparr>)" for t
    using assms(3) by (subst retryLoop.simps) (simp add: act_defs 3 numeral_2_eq_2)
  have 1: "retryLoop environment filename 3 (Suc 0) t =
             (Inr None, t\<lparr>effects := effects t @
                [TranscriptionsCreate filename, SetTimeout 2000,
                 TranscriptionsCreate filename]\<rparr>)" for t
    using assms(2) by (subst retryLoop.simps) (simp add: act_defs 2)
  show ?thesis
    using assms(1) by (subst retryLoop.simps) (simp add: act_defs 1)
qed

lemma transcribeAudio_all_fail:
  assumes "stat_result environment = Inr sz" and "sz \<noteq> 0"
    and "transcriptions_create environment 0 = Inl e0"
    and "transcriptions_create environment 1 = Inl e1"
    and "transcriptions_create environment 2 = Inl e2"
  shows "transcribeAudio environment filename s =
           (Inr ''Failed to transcribe audio after multiple attempts'',
            s\<lparr>effects := effects s @
              [FsStat filename,
               TranscriptionsCreate filename, SetTimeout 1000,
               TranscriptionsCreate filename, SetTimeout 2000,
               TranscriptionsCreate filename,
               ConsoleError ''Final transcription error:'']\<rparr>)"
  using assms
  by (simp add: transcribeAudio_def act_defs retryLoop_all_fail [OF assms(3-5)])

lemma summarize_failure_text:
  "summarizeText environment ''Failed to transcribe audio after multiple attempts'' s =
     (Inr ''Text too short to summarize meaningfully'', s)"
  by (simp add: summarizeText_def act_defs)

text \<open>
  C2 says that after three failed transcription calls the summary step is skipped and
  the user receives the text about no clear speech. Here every transcription call
  fails: there are exactly three calls, with waits of 1000 ms and 2000 ms between
  them, and \<open>transcribeAudio\<close> returns its failure text. That text is not the one the
  leave command compares with, so \<open>summarizeText\<close> runs on it and the channel receives
  the summary heading followed by the text about a text too short to summarize; the
  text about no clear speech is not sent.
\<close>

theorem leave_after_three_failed_transcriptions:
  "handleLeaveCommand (calm_env\<lparr>transcriptions_create := (\<lambda>i. Inl (Exn ''503''))\<rparr>)
     (guild_message ''g'') recording_bot =
   (Inr (), recording_bot
      \<lparr>audioQueues := [],
       effects := [ConnectionDestroy 7,
                   ConsoleLogHeader 2 48000 16 2,
                   FsWriteFile ''recording_g.wav'' (specHeader 2 @ [1, 2]),
                   FsStat ''recording_g.wav'',
                   TranscriptionsCreate ''recording_g.wav'', SetTimeout 1000,
                   TranscriptionsCreate ''recording_g.wav'', SetTimeout 2000,
                   TranscriptionsCreate ''recording_g.wav'',
                   ConsoleError ''Final transcription error:'',
                   ChannelSend (summaryHeading @ ''Text too short to summarize meaningfully''),
                   FsUnlink ''recording_g.wav'',
                   MessageReply ''Left voice channel.'']\<rparr>)"
proof -
  define environment where
    "environment = calm_env\<lparr>transcriptions_create := (\<lambda>i. Inl (Exn ''503''))\<rparr>"
  have t: "transcribeAudio environment ''recording_g.wav'' t =
           (Inr ''Failed to transcribe audio after multiple attempts'',
            t\<lparr>effects := effects t @
              [FsStat ''recording_g.wav'',
               TranscriptionsCreate ''recording_g.wav'', SetTimeout 1000,
               TranscriptionsCreate ''recording_g.wav'', SetTimeout 2000,
               TranscriptionsCreate ''recording_g.wav'',
               ConsoleError ''Final transcription error:'']\<rparr>)" for t
    by (rule transcribeAudio_all_fail [where sz = 46])
       (simp_all add: environment_def calm_env_def)
  have u: "unlink_result environment = Inr ()" "destroy_result environment = Inr ()"
    "writeFile_result environment = Inr ()"
    by (simp_all add: environment_def calm_env_def)
  show ?thesis
    unfolding environment_def [symmetric]
    by (simp add: handleLeaveCommand_def processRecording_def transcribeAndReport_def
        act_defs t u summarize_failure_text guild_message_def recording_bot_def
        Buffer_concat_def wav_of_two audioQueues_delete_def AList.delete_eq)
qed

subsection \<open>The registry has one entry per key\<close>

lemma keepsD: "keeps Q m \<Longrightarrow> Q (audioQueues s) \<Longrightarrow> Q (audioQueues (snd (m s)))"
  by (simp add: keeps_def)

lemma keeps_ret: "keeps Q (ret x)"
  by (simp add: keeps_def ret_def)

lemma keeps_effect: "keeps Q (effect ev r)"
  by (simp add: keeps_def effect_def)

lemma keeps_andThen:
  assumes "keeps Q m" and "\<And>x. keeps Q (f x)"
  shows "keeps Q (andThen m f)"
  unfolding keeps_def
proof (intro allI impI)
  fix s :: VoiceBot assume q: "Q (audioQueues s)"
  obtain r s' where ms: "m s = (r, s')" by (cases "m s")
  from keepsD [OF assms(1) q] ms have q': "Q (audioQueues s')" by simp
  show "Q (audioQueues (snd (andThen m f s)))"
  proof (cases r)
    case (Inl e)
    with ms q' show ?thesis by (simp add: andThen_def)
  next
    case (Inr x)
    with ms keepsD [OF assms(2) q', of x] show ?thesis by (simp add: andThen_def)
  qed
qed

lemma keeps_tryCatch:
  assumes "keeps Q m" and "\<And>e. keeps Q (h e)"
  shows "keeps Q (tryCatch m h)"
  unfolding keeps_def
proof (intro allI impI)
  fix s :: VoiceBot assume q: "Q (audioQueues s)"
  obtain r s' where ms: "m s = (r, s')" by (cases "m s")
  from keepsD [OF assms(1) q] ms have q': "Q (audioQueues s')" by simp
  show "Q (audioQueues (snd (tryCatch m h s)))"
  proof (cases r)
    case (Inl e)
    with ms keepsD [OF assms(2) q', of e] show ?thesis by (simp add: tryCatch_def)
  next
    case (Inr x)
    with ms q' show ?thesis by (simp add: tryCatch_def)
  qed
qed

lemma keeps_tryFinally:
  assumes "keeps Q m" and "keeps Q fin"
  shows "keeps Q (tryFinally m fin)"
  unfolding keeps_def
proof (intro allI impI)
  fix s :: VoiceBot assume q: "Q (audioQueues s)"
  obtain r s' where ms: "m s = (r, s')" by (cases "m s")
  from keepsD [OF assms(1) q] ms have q': "Q (audioQueues s')" by simp
  obtain r' s'' where fs: "fin s' = (r', s'')" by (cases "fin s'")
  from keepsD [OF assms(2) q'] fs have "Q (audioQueues s'')" by simp
  with ms fs show "Q (audioQueues (snd (tryFinally m fin s)))"
    by (cases r') (simp_all add: tryFinally_def)
qed

lemma keeps_console: "keeps Q (console_log a)" "keeps Q (console_warn a)"
  "keeps Q (console_error a)"
  by (simp_all add: console_log_def console_warn_def console_error_def keeps_effect)

lemma keeps_message: "keeps Q (message_reply message text)"
  "keeps Q (message_channel_send message text)"
  by (simp_all add: message_reply_def message_channel_send_def keeps_effect keeps_ret
      split: option.split)

lemma keeps_queue_push: "keeps Q (queue_push queue audioData)"
  by (simp add: keeps_def queue_push_def)

lemma keeps_liftResult: "keeps Q (liftResult r)"
  by (simp add: keeps_def liftResult_def)

lemmas keeps_intros = keeps_andThen keeps_tryCatch keeps_tryFinally keeps_ret keeps_effect
  keeps_console keeps_message keeps_queue_push keeps_liftResult

lemma keeps_onChunk: "keeps Q (onChunk opus queue decoder c)"
proof (cases c)
  case OtherChunk
  then show ?thesis by (simp add: onChunk_def keeps_ret)
next
  case (BufferChunk b)
  obtain r d' where d: "decode opus decoder b = (r, d')" by (cases "decode opus decoder b")
  have log: "keeps Q (\<lambda>s. effect (ConsoleLogNum ''Total audio size (bytes)''
               (totalSize (audioChunks (heap s queue)))) (Inr ()) s)"
    by (simp add: keeps_def effect_def)
  show ?thesis
    unfolding onChunk_def BufferChunk chunk.case d prod.case
    by (intro keeps_intros) (auto split: sum.split option.split intro!: keeps_intros log)
qed

lemma keeps_forAwait: "keeps Q (forAwait opus queue cs ending decoder)"
proof (induction cs arbitrary: decoder)
  case Nil
  show ?case by (cases ending) (simp_all add: keeps_ret keeps_effect)
next
  case (Cons c cs)
  show ?case by (simp, intro keeps_intros keeps_onChunk Cons.IH)
qed

lemma keeps_handleAudioStream: "keeps Q (handleAudioStream opus audioStream guildId)"
  unfolding keeps_def
proof (intro allI impI)
  fix s :: VoiceBot assume q: "Q (audioQueues s)"
  show "Q (audioQueues (snd (handleAudioStream opus audioStream guildId s)))"
  proof (cases "map_of (audioQueues s) guildId")
    case None
    with q show ?thesis by (simp add: handleAudioStream_def)
  next
    case (Some queue)
    have "keeps Q (tryCatch
            (andThen (console_log ''Starting new audio stream'') (\<lambda>_.
             andThen (effect (NewOpusScript 48000 2) (construct opus)) (\<lambda>decoder.
             andThen (forAwait opus queue (chunks audioStream) (failure audioStream)
                        decoder) (\<lambda>_.
             effect DecoderDelete (Inr ())))))
            (\<lambda>error. console_error ''Error in audio stream handling:''))"
      by (intro keeps_intros keeps_forAwait)
    from keepsD [OF this q] Some show ?thesis by (simp add: handleAudioStream_def)
  qed
qed


lemma keeps_retryLoop: "keeps Q (retryLoop environment filename maxRetries i)"
proof (induction "maxRetries - i" arbitrary: i)
  case 0
  then have "retryLoop environment filename maxRetries i = (\<lambda>s. (Inr None, s))"
    by (intro ext, subst retryLoop.simps) simp
  then show ?case by (simp add: keeps_def)
next
  case (Suc n)
  then have lt: "i < maxRetries" and n: "n = maxRetries - Suc i" by simp_all
  have ih: "keeps Q (retryLoop environment filename maxRetries (Suc i))"
    by (rule Suc.hyps(1) [OF n])
  have wait: "keeps Q (andThen (effect (SetTimeout (2 ^ i * 1000)) (Inr ())) (\<lambda>_.
               retryLoop environment filename maxRetries (Suc i)))"
    by (intro keeps_intros ih)
  show ?case
    unfolding keeps_def
  proof (intro allI impI)
    fix s :: VoiceBot assume q: "Q (audioQueues s)"
    let ?s' = "s\<lparr>effects := effects s @ [TranscriptionsCreate filename]\<rparr>"
    have q': "Q (audioQueues ?s')" using q by simp
    show "Q (audioQueues (snd (retryLoop environment filename maxRetries i s)))"
      using lt q' keepsD [OF ih q'] keepsD [OF wait q']
      by (subst retryLoop.simps) (simp add: effect_def split: sum.split)
  qed
qed

lemma keeps_transcribeAudio: "keeps Q (transcribeAudio environment filename)"
  unfolding transcribeAudio_def
  by (intro keeps_intros) (auto split: option.split intro!: keeps_intros keeps_retryLoop)

lemma keeps_summarizeText: "keeps Q (summarizeText environment text)"
  unfolding summarizeText_def
  by (auto split: option.split intro!: keeps_intros)

lemma keeps_createWavBuffer: "keeps Q (createWavBuffer audioBuffer)"
  unfolding createWavBuffer_def by (intro keeps_intros)

lemma keeps_transcribeAndReport:
  "keeps Q (transcribeAndReport environment message filename)"
  unfolding transcribeAndReport_def
  by (intro keeps_intros keeps_transcribeAudio)
     (auto intro!: keeps_intros keeps_summarizeText)

lemma keeps_processRecording:
  "keeps Q (processRecording environment message guildId queue)"
proof -
  have wav: "keeps Q (\<lambda>s. createWavBuffer (Buffer_concat (audioChunks (heap s queue))) s)"
    using keeps_createWavBuffer [of Q] by (simp add: keeps_def)
  show ?thesis
    unfolding processRecording_def
    by (intro keeps_intros wav keeps_transcribeAndReport)
qed

text \<open>The two operations that change the registry keep its keys distinct.\<close>

lemma keeps_audioQueues_set:
  "keeps (\<lambda>r. distinct (map fst r)) (audioQueues_set guildId queue)"
  by (simp add: keeps_def audioQueues_set_def distinct_update)

lemma keeps_audioQueues_delete:
  "keeps (\<lambda>r. distinct (map fst r)) (audioQueues_delete guildId)"
  by (simp add: keeps_def audioQueues_delete_def distinct_delete)

lemma keeps_handleJoinCommand:
  "keeps (\<lambda>r. distinct (map fst r)) (handleJoinCommand environment message)"
  unfolding handleJoinCommand_def
  by (auto split: option.split intro!: keeps_intros keeps_audioQueues_set)

lemma keeps_handleLeaveCommand:
  "keeps (\<lambda>r. distinct (map fst r)) (handleLeaveCommand environment message)"
  unfolding keeps_def
proof (intro allI impI)
  fix s :: VoiceBot assume q: "distinct (map fst (audioQueues s))"
  let ?Q = "\<lambda>r :: (guildId \<times> ref) list. distinct (map fst r)"
  show "distinct (map fst (audioQueues (snd (handleLeaveCommand environment message s))))"
  proof (cases "guild message")
    case None
    with q show ?thesis by (simp add: handleLeaveCommand_def)
  next
    case (Some guildId)
    show ?thesis
    proof (cases "guildId = [] \<or> map_of (audioQueues s) guildId = None")
      case True
      with q Some keepsD [OF keeps_message(1), of ?Q s message]
      show ?thesis by (auto simp add: handleLeaveCommand_def)
    next
      case False
      then obtain queue where g: "guildId \<noteq> []"
        and m: "map_of (audioQueues s) guildId = Some queue" by auto
      have branch: "keeps ?Q (\<lambda>s'. if length (audioChunks (heap s' queue)) > 0
                 then processRecording environment message guildId queue s'
                 else message_reply message ''No audio was recorded.'' s')"
        using keeps_processRecording [of ?Q environment message guildId queue]
          keeps_message(1) [of ?Q message "''No audio was recorded.''"]
        by (simp add: keeps_def)
      have "keeps ?Q (tryCatch
                   (andThen (effect (ConnectionDestroy (connection (heap s queue)))
                               (destroy_result environment)) (\<lambda>_.
                    andThen (\<lambda>s'. if length (audioChunks (heap s' queue)) > 0
                                   then processRecording environment message guildId queue s'
                                   else message_reply message ''No audio was recorded.'' s')
                      (\<lambda>_.
                    andThen (audioQueues_delete guildId) (\<lambda>_.
                    message_reply message ''Left voice channel.''))))
                   (\<lambda>error.
                    andThen (console_error ''Error processing recording:'') (\<lambda>_.
                    message_reply message ''Failed to process recording.'')))"
        by (intro keeps_intros branch keeps_audioQueues_delete)
      from keepsD [OF this q] Some g m show ?thesis
        by (simp add: handleLeaveCommand_def)
    qed
  qed
qed

lemma keeps_invoke: "keeps (\<lambda>r. distinct (map fst r)) (invoke c)"
  by (cases c)
     (simp_all add: keeps_handleJoinCommand keeps_handleLeaveCommand keeps_handleAudioStream)

lemma distinct_run:
  "distinct (map fst (audioQueues s)) \<Longrightarrow> distinct (map fst (audioQueues (run cs s)))"
proof (induction cs arbitrary: s)
  case Nil
  then show ?case by simp
next
  case (Cons c cs)
  from keepsD [OF keeps_invoke Cons.prems]
  have "distinct (map fst (audioQueues (snd (invoke c s))))" .
  from Cons.IH [OF this] show ?case by simp
qed

lemma distinct_keys_one_entry:
  "distinct (map fst r) \<Longrightarrow> length (filter (\<lambda>entry. fst entry = g) r) \<le> 1"
proof (induction r)
  case Nil
  then show ?case by simp
next
  case (Cons p r)
  then have ih: "length (filter (\<lambda>entry. fst entry = g) r) \<le> 1" by simp
  show ?case
  proof (cases "fst p = g")
    case True
    with Cons.prems have "g \<notin> fst ` set r" by auto
    then have "filter (\<lambda>entry. fst entry = g) r = []"
      by (auto simp add: filter_empty_conv)
    with True show ?thesis by simp
  next
    case False
    with ih show ?thesis by simp
  qed
qed

lemma double_join:
  "audioQueues (run [Join calm_env (voice_message ''g''), Join calm_env (voice_message ''g'')]
     VoiceBot_new) = [(''g'', 1)]"
  by (simp add: handleJoinCommand_def act_defs audioQueues_set_def calm_env_def
      voice_message_def VoiceBot_new_def)

text \<open>
  C9. After any sequence of join commands, leave commands and speaking turns, handled
  one after the other by a new bot, the keys of the registry are distinct: for every
  key the registry holds at most one entry. In particular a second join for a key,
  with no leave in between, replaces the entry of the first one.
\<close>

theorem registry_one_entry_per_key:
  "distinct (map fst (audioQueues (run invocations VoiceBot_new)))
   \<and> length (filter (\<lambda>entry. fst entry = g)
        (audioQueues (run invocations VoiceBot_new))) \<le> 1
   \<and> audioQueues (run [Join calm_env (voice_message ''g''),
                        Join calm_env (voice_message ''g'')] VoiceBot_new) = [(''g'', 1)]"
proof -
  have "distinct (map fst (audioQueues VoiceBot_new))" by (simp add: VoiceBot_new_def)
  from distinct_run [OF this]
  have keys: "distinct (map fst (audioQueues (run invocations VoiceBot_new)))" .
  from distinct_keys_one_entry [OF keys]
  have one: "length (filter (\<lambda>entry. fst entry = g)
               (audioQueues (run invocations VoiceBot_new))) \<le> 1" .
  show ?thesis by (intro conjI keys one double_join)
qed

subsection \<open>Frames that fail to decode, streams that fail\<close>

lemma onChunk_returns: "\<exists>d' s'. onChunk opus queue d c s = (Inr d', s')"
proof (cases c)
  case OtherChunk
  then show ?thesis by (simp add: onChunk_def ret_def)
next
  case (BufferChunk b)
  obtain r d1 where d: "decode opus d b = (r, d1)" by (cases "decode opus d b")
  show ?thesis
    by (cases r) (auto simp add: BufferChunk onChunk_def act_defs queue_push_def d
        split: option.split)
qed





text \<open>
  C3 says that the decoder of a stream is released when the stream ends, by silence
  or by a failure, and that a failure of the stream is caught. Here the stream yields
  one frame and then fails: the exception is caught and the handler returns normally,
  but the release of the decoder is not among the effects; it is the last statement of
  the \<open>try\<close> block, which the exception skips.
\<close>

theorem failed_stream_keeps_decoder:
  "fst (handleAudioStream echo_codec
      \<lparr>chunks = [BufferChunk [5]], failure = Some (Exn ''connection lost'')\<rparr> ''g''
      recording_bot) = Inr ()
   \<and> effects (snd (handleAudioStream echo_codec
      \<lparr>chunks = [BufferChunk [5]], failure = Some (Exn ''connection lost'')\<rparr> ''g''
      recording_bot)) =
     [ConsoleLog ''Starting new audio stream'', NewOpusScript 48000 2,
      StreamNext, ConsoleLogNum ''Original chunk size (bytes)'' 1,
      ConsoleLogNum ''Total audio size (bytes)'' 3,
      StreamNext, ConsoleError ''Error in audio stream handling:'']
   \<and> DecoderDelete \<notin> set (effects (snd (handleAudioStream echo_codec
      \<lparr>chunks = [BufferChunk [5]], failure = Some (Exn ''connection lost'')\<rparr> ''g''
      recording_bot)))"
  by (simp add: handleAudioStream_def onChunk_def act_defs queue_push_def push_def
      Buffer_from_def totalSize_def echo_codec_def recording_bot_def)

subsection \<open>The handler of a stream in general\<close>

text \<open>The handler of a stream never throws.\<close>

lemma handleAudioStream_resolves:
  "fst (handleAudioStream opus audioStream guildId s) = Inr ()"
proof (cases "map_of (audioQueues s) guildId")
  case None
  then show ?thesis by (simp add: handleAudioStream_def)
next
  case (Some queue)
  have "fst (tryCatch m (\<lambda>error. console_error msg) t) = Inr ()"
    for m :: "unit action" and msg t
    by (cases "m t") (auto simp add: tryCatch_def console_error_def effect_def split: sum.split)
  with Some show ?thesis by (simp add: handleAudioStream_def)
qed

lemma onChunk_no_delete:
  assumes "DecoderDelete \<notin> set (effects s)"
  shows "DecoderDelete \<notin> set (effects (snd (onChunk opus queue d c s)))"
proof (cases c)
  case OtherChunk
  with assms show ?thesis by (simp add: onChunk_def ret_def)
next
  case (BufferChunk b)
  obtain r d1 where d: "decode opus d b = (r, d1)" by (cases "decode opus d b")
  show ?thesis
    using assms
    by (cases r) (auto simp add: BufferChunk onChunk_def act_defs queue_push_def d
        split: option.split)
qed

lemma forAwait_ends:
  "\<exists>d' s'. forAwait opus queue cs None d s = (Inr d', s')"
proof (induction cs arbitrary: d s)
  case Nil
  show ?case by (simp add: ret_def)
next
  case (Cons c cs)
  let ?t = "s\<lparr>effects := effects s @ [StreamNext]\<rparr>"
  from onChunk_returns [of opus queue d c ?t]
  obtain d1 s1 where 1: "onChunk opus queue d c ?t = (Inr d1, s1)" by auto
  from Cons.IH [of d1 s1] 1 show ?case by (simp add: andThen_def effect_def)
qed

lemma forAwait_fails:
  "\<exists>s'. forAwait opus queue cs (Some e) d s = (Inl e, s')
        \<and> (DecoderDelete \<notin> set (effects s) \<longrightarrow> DecoderDelete \<notin> set (effects s'))"
proof (induction cs arbitrary: d s)
  case Nil
  show ?case by (simp add: effect_def)
next
  case (Cons c cs)
  let ?t = "s\<lparr>effects := effects s @ [StreamNext]\<rparr>"
  from onChunk_returns [of opus queue d c ?t]
  obtain d1 s1 where 1: "onChunk opus queue d c ?t = (Inr d1, s1)" by auto
  have 2: "DecoderDelete \<notin> set (effects s) \<Longrightarrow> DecoderDelete \<notin> set (effects s1)"
    using onChunk_no_delete [of ?t opus queue d c] 1 by simp
  from Cons.IH [of d1 s1] 1 2 show ?case by (auto simp add: andThen_def effect_def)
qed

text \<open>A stream that ends normally: the last effect of the handler is the release.\<close>

lemma ended_stream_releases_decoder:
  assumes "map_of (audioQueues s) guildId = Some queue" and "construct opus = Inr d"
    and "failure audioStream = None"
  shows "\<exists>evs. effects (snd (handleAudioStream opus audioStream guildId s)) =
           evs @ [DecoderDelete]"
proof -
  let ?t = "s\<lparr>effects := effects s @
              [ConsoleLog ''Starting new audio stream'', NewOpusScript 48000 2]\<rparr>"
  from forAwait_ends [of opus queue "chunks audioStream" d ?t]
  obtain d' s' where 1: "forAwait opus queue (chunks audioStream) None d ?t = (Inr d', s')"
    by auto
  with assms show ?thesis by (simp add: handleAudioStream_def act_defs)
qed

text \<open>A stream that fails: the exception is caught, the decoder is not released.\<close>

lemma failed_stream_never_releases_decoder:
  assumes "map_of (audioQueues s) guildId = Some queue" and "construct opus = Inr d"
    and "failure audioStream = Some e" and "DecoderDelete \<notin> set (effects s)"
  shows "DecoderDelete \<notin> set (effects (snd (handleAudioStream opus audioStream guildId s)))"
proof -
  let ?t = "s\<lparr>effects := effects s @
              [ConsoleLog ''Starting new audio stream'', NewOpusScript 48000 2]\<rparr>"
  from assms(4) have "DecoderDelete \<notin> set (effects ?t)" by simp
  with forAwait_fails [of opus queue "chunks audioStream" e d ?t]
  obtain s' where 1: "forAwait opus queue (chunks audioStream) (Some e) d ?t = (Inl e, s')"
    and 2: "DecoderDelete \<notin> set (effects s')" by auto
  with assms show ?thesis by (simp add: handleAudioStream_def act_defs)
qed

text \<open>
  A leave command whose write of the file fails leaves the registry as it was, for
  every session that has recorded audio.
\<close>

lemma leave_write_failure_keeps_registry:
  assumes "guild message = Some guildId" and "guildId \<noteq> []"
    and "map_of (audioQueues s) guildId = Some queue"
    and "destroy_result environment = Inr ()"
    and "audioChunks (heap s queue) \<noteq> []"
    and "length (Buffer_concat (audioChunks (heap s queue))) \<le> 4294967259"
    and "writeFile_result environment = Inl e"
  shows "audioQueues (snd (handleLeaveCommand environment message s)) = audioQueues s"
  using assms createWavBuffer_bytes [OF assms(6)]
  by (simp add: handleLeaveCommand_def processRecording_def act_defs)

section \<open>The session buffer in the handlers\<close>

text \<open>
  One chunk of the stream appends to the queue what the specification says it is to
  append, and leaves the decoder in the state that \<open>decode\<close> returned.
\<close>

lemma onChunk_heap:
  "\<exists>s'. onChunk opus queue d (BufferChunk b) s = (Inr (snd (decode opus d b)), s')
      \<and> audioChunks (heap s' queue) =
          audioChunks (heap s queue) @
            (case decode opus d b of
               (Inr (Some pcm), d') \<Rightarrow> if pcm = [] then [] else [pcm]
             | (_, d') \<Rightarrow> [])"
proof -
  obtain r d1 where d: "decode opus d b = (r, d1)" by (cases "decode opus d b")
  show ?thesis
    by (cases r)
       (auto simp add: onChunk_def act_defs queue_push_def push_def Buffer_from_def d
        split: option.split)
qed

lemma forAwait_heap:
  "audioChunks (heap (snd (forAwait opus queue cs ending d s)) queue) =
     audioChunks (heap s queue) @ decodedChunks opus d cs"
proof (induction cs arbitrary: d s)
  case Nil
  show ?case by (cases ending) (simp_all add: ret_def effect_def)
next
  case (Cons c cs)
  let ?t = "s\<lparr>effects := effects s @ [StreamNext]\<rparr>"
  show ?case
  proof (cases c)
    case OtherChunk
    from Cons.IH [of d ?t] show ?thesis
      by (simp add: OtherChunk onChunk_def andThen_def effect_def ret_def)
  next
    case (BufferChunk b)
    from onChunk_heap [of opus queue d b ?t]
    obtain s1 where 1: "onChunk opus queue d (BufferChunk b) ?t = (Inr (snd (decode opus d b)), s1)"
      and 2: "audioChunks (heap s1 queue) =
                audioChunks (heap s queue) @
                  (case decode opus d b of
                     (Inr (Some pcm), d') \<Rightarrow> if pcm = [] then [] else [pcm]
                   | (_, d') \<Rightarrow> [])"
      by auto
    obtain r d1 where d: "decode opus d b = (r, d1)" by (cases "decode opus d b")
    from Cons.IH [of d1 s1] 1 2 show ?thesis
      by (cases r)
         (auto simp add: BufferChunk andThen_def effect_def d split: option.split)
  qed
qed

lemma handleAudioStream_heap:
  assumes "map_of (audioQueues s) guildId = Some queue" and "construct opus = Inr d"
  shows "audioChunks (heap (snd (handleAudioStream opus audioStream guildId s)) queue) =
           audioChunks (heap s queue) @ decodedChunks opus d (chunks audioStream)"
proof -
  let ?t = "s\<lparr>effects := effects s @
              [ConsoleLog ''Starting new audio stream'', NewOpusScript 48000 2]\<rparr>"
  obtain r s' where 1:
    "forAwait opus queue (chunks audioStream) (failure audioStream) d ?t = (r, s')"
    by (cases "forAwait opus queue (chunks audioStream) (failure audioStream) d ?t")
  from forAwait_heap [of opus queue "chunks audioStream" "failure audioStream" d ?t] 1
  have 2: "audioChunks (heap s' queue) =
             audioChunks (heap s queue) @ decodedChunks opus d (chunks audioStream)"
    by simp
  from assms 1 2 show ?thesis
    by (cases r) (simp_all add: handleAudioStream_def act_defs)
qed

text \<open>
  A frame that decodes to a non-empty buffer: the buffer is pushed at the end of the
  queue, and the size that is logged is the sum of the lengths of the chunks that the
  queue holds then.
\<close>

lemma onChunk_push_and_size:
  assumes "decode opus d b = (Inr (Some pcm), d')" and "pcm \<noteq> []"
  shows "onChunk opus queue d (BufferChunk b) s =
           (Inr d',
            s\<lparr>heap := (heap s)(queue := (heap s queue)
                  \<lparr>audioChunks := audioChunks (heap s queue) @ [pcm]\<rparr>),
              effects := effects s @
                [ConsoleLogNum ''Original chunk size (bytes)'' (length b),
                 ConsoleLogNum ''Total audio size (bytes)''
                   (sum_list (map length (audioChunks (heap s queue))) + length pcm)]\<rparr>)"
  using assms
  by (simp add: onChunk_def act_defs queue_push_def push_def Buffer_from_def totalSize_sum)

text \<open>
  The drain of the leave command: the chunks of the queue, concatenated in the order
  in which the queue holds them, are what is serialized and written to the file.
\<close>

lemma processRecording_drains:
  assumes "length (concat (audioChunks (heap s queue))) \<le> 4294967259"
  shows "processRecording environment message guildId queue s =
           (case writeFile_result environment of
              Inl e \<Rightarrow> Pair (Inl e)
            | Inr _ \<Rightarrow> transcribeAndReport environment message
                         (''recording_'' @ guildId @ ''.wav''))
             (s\<lparr>effects := effects s @
                [ConsoleLogHeader 2 48000 16 (length (concat (audioChunks (heap s queue)))),
                 FsWriteFile (''recording_'' @ guildId @ ''.wav'')
                   (specHeader (length (concat (audioChunks (heap s queue))))
                    @ concat (audioChunks (heap s queue)))]\<rparr>)"
proof -
  have "length (Buffer_concat (audioChunks (heap s queue))) \<le> 4294967259"
    using assms by (simp add: Buffer_concat_def)
  from createWavBuffer_bytes [OF this, of s] show ?thesis
    by (simp add: processRecording_def andThen_def effect_def Buffer_concat_def
        split: sum.split)
qed

text \<open>
  C6. The session buffer is the array \<open>audioChunks\<close> of the queue of a session, with
  \<open>push\<close> as append, the \<open>reduce\<close> over the lengths as total size and \<open>Buffer.concat\<close>
  as drain. For any sequence of chunks pushed, the drain is their concatenation in the
  order of the pushes, after what the buffer held before, and after any number of the
  pushes the total size is the sum of the lengths of the chunks pushed so far. The
  handlers use the buffer in this way. A subscription appends to the queue of its
  session, in the order of the frames, exactly the non-empty decodings of its frames,
  nothing else and none of them twice, whether the stream ends normally or fails.
  On each such frame the size that is logged is the sum of the lengths of all chunks
  in the queue. The leave command serializes and writes to the file the concatenation
  of the chunks in the order in which the queue holds them.
\<close>

theorem session_buffer_append_order:
  "Buffer_concat (foldl push [] cs) = concat cs
   \<and> Buffer_concat (foldl push chunks0 cs) = Buffer_concat chunks0 @ concat cs
   \<and> (\<forall>k. totalSize (foldl push [] (take k cs)) = sum_list (map length (take k cs)))
   \<and> totalSize (foldl push chunks0 cs) = totalSize chunks0 + sum_list (map length cs)
   \<and> audioChunks (heap (foldl (\<lambda>s c. snd (queue_push q c s)) s cs) q) =
       audioChunks (heap s q) @ cs
   \<and> audioChunks (heap (snd (forAwait opus q frames ending d s)) q) =
       audioChunks (heap s q) @ decodedChunks opus d frames
   \<and> (map_of (audioQueues s) guildId = Some q \<and> construct opus = Inr d \<longrightarrow>
        audioChunks (heap (snd (handleAudioStream opus audioStream guildId s)) q) =
          audioChunks (heap s q) @ decodedChunks opus d (chunks audioStream))
   \<and> (decode opus d b = (Inr (Some pcm), d') \<and> pcm \<noteq> [] \<longrightarrow>
        onChunk opus q d (BufferChunk b) s =
          (Inr d',
           s\<lparr>heap := (heap s)(q := (heap s q)
                 \<lparr>audioChunks := audioChunks (heap s q) @ [pcm]\<rparr>),
             effects := effects s @
               [ConsoleLogNum ''Original chunk size (bytes)'' (length b),
                ConsoleLogNum ''Total audio size (bytes)''
                  (sum_list (map length (audioChunks (heap s q))) + length pcm)]\<rparr>))
   \<and> (length (concat (audioChunks (heap s q))) \<le> 4294967259 \<longrightarrow>
        processRecording environment message guildId q s =
          (case writeFile_result environment of
             Inl e \<Rightarrow> Pair (Inl e)
           | Inr _ \<Rightarrow> transcribeAndReport environment message
                        (''recording_'' @ guildId @ ''.wav''))
            (s\<lparr>effects := effects s @
               [ConsoleLogHeader 2 48000 16 (length (concat (audioChunks (heap s q)))),
                FsWriteFile (''recording_'' @ guildId @ ''.wav'')
                  (specHeader (length (concat (audioChunks (heap s q))))
                   @ concat (audioChunks (heap s q)))]\<rparr>))"
proof -
  have lists: "Buffer_concat (foldl push [] cs) = concat cs
   \<and> Buffer_concat (foldl push chunks0 cs) = Buffer_concat chunks0 @ concat cs
   \<and> (\<forall>k. totalSize (foldl push [] (take k cs)) = sum_list (map length (take k cs)))
   \<and> totalSize (foldl push chunks0 cs) = totalSize chunks0 + sum_list (map length cs)
   \<and> audioChunks (heap (foldl (\<lambda>s c. snd (queue_push q c s)) s cs) q) =
       audioChunks (heap s q) @ cs"
    by (simp add: foldl_push Buffer_concat_def totalSize_sum heap_pushes)
  show ?thesis
    using lists forAwait_heap [of opus q frames ending d s]
      handleAudioStream_heap [of s guildId q opus d audioStream]
      onChunk_push_and_size [of opus d b pcm d' q s]
      processRecording_drains [of s q environment message guildId]
    by blast
qed

text \<open>
  The theorem of C6 for the session that has recorded the bytes 1 and 2: a speaking
  turn with an empty frame, which the codec rejects, and the frames 3 and 4, 5 appends
  the two decodings in this order, and a leave command whose write of the file fails
  has attempted to write the header for five bytes followed by 1, 2, 3, 4, 5.
\<close>

theorem session_buffer_append_order_witness:
  "map_of (audioQueues recording_bot) ''g'' = Some 0 \<and> construct echo_codec = Inr 0
   \<and> decode echo_codec 0 [3] = (Inr (Some [3]), 1) \<and> [3 :: byte] \<noteq> []
   \<and> audioChunks (heap (snd (handleAudioStream echo_codec
        \<lparr>chunks = [BufferChunk [], BufferChunk [3], BufferChunk [4, 5]], failure = None\<rparr>
        ''g'' recording_bot)) 0) = [[1, 2], [3], [4, 5]]
   \<and> fst (onChunk echo_codec 0 0 (BufferChunk [3]) recording_bot) = Inr 1
   \<and> effects (snd (onChunk echo_codec 0 0 (BufferChunk [3]) recording_bot)) =
       [ConsoleLogNum ''Original chunk size (bytes)'' 1,
        ConsoleLogNum ''Total audio size (bytes)'' 3]
   \<and> length (concat (audioChunks (heap
        (recording_bot\<lparr>heap := (\<lambda>_. \<lparr>connection = 7,
                                       audioChunks = [[1, 2], [3], [4, 5]]\<rparr>)\<rparr>) 0)))
       \<le> 4294967259
   \<and> processRecording (calm_env\<lparr>writeFile_result := Inl (Exn ''ENOSPC'')\<rparr>)
        (guild_message ''g'') ''g'' 0
        (recording_bot\<lparr>heap := (\<lambda>_. \<lparr>connection = 7,
                                       audioChunks = [[1, 2], [3], [4, 5]]\<rparr>)\<rparr>) =
       (Inl (Exn ''ENOSPC''),
        recording_bot\<lparr>heap := (\<lambda>_. \<lparr>connection = 7,
                                       audioChunks = [[1, 2], [3], [4, 5]]\<rparr>),
                      effects := [ConsoleLogHeader 2 48000 16 5,
                                  FsWriteFile ''recording_g.wav''
                                    (specHeader 5 @ [1, 2, 3, 4, 5])]\<rparr>)"
proof -
  let ?stream = "\<lparr>chunks = [BufferChunk [], BufferChunk [3], BufferChunk [4, 5]],
                  failure = None\<rparr>"
  let ?full = "recording_bot\<lparr>heap := (\<lambda>_. \<lparr>connection = 7,
                                       audioChunks = [[1, 2], [3], [4, 5]]\<rparr>)\<rparr>"
  let ?env = "calm_env\<lparr>writeFile_result := Inl (Exn ''ENOSPC'')\<rparr>"
  have m: "map_of (audioQueues recording_bot) ''g'' = Some 0"
    and n: "construct echo_codec = Inr 0"
    and a: "decode echo_codec 0 [3] = (Inr (Some [3]), 1)" and b: "[3 :: byte] \<noteq> []"
    by (simp_all add: echo_codec_def recording_bot_def)
  have h: "audioChunks (heap recording_bot 0) = [[1, 2]]" by (simp add: recording_bot_def)
  have dc: "decodedChunks echo_codec 0 (chunks ?stream) = [[3], [4, 5]]"
    by (simp add: echo_codec_def)
  have l: "length (concat (audioChunks (heap ?full 0))) \<le> 4294967259" by simp
  have w: "writeFile_result ?env = Inl (Exn ''ENOSPC'')" by simp
  note thm1 = session_buffer_append_order
    [of "[]" "[]" 0 recording_bot echo_codec "[]" None 0 "''g''" ?stream "[3]" "[3]" 1
        ?env "guild_message ''g''"]
  note thm2 = session_buffer_append_order
    [of "[]" "[]" 0 ?full echo_codec "[]" None 0 "''g''" ?stream "[3]" "[3]" 1
        ?env "guild_message ''g''"]
  from thm1 m n have 1: "audioChunks (heap (snd (handleAudioStream echo_codec ?stream
        ''g'' recording_bot)) 0) = [[1, 2], [3], [4, 5]]"
    by (simp only: h dc) simp
  from thm1 a b have 2: "onChunk echo_codec 0 0 (BufferChunk [3]) recording_bot =
          (Inr 1,
           recording_bot\<lparr>heap := (heap recording_bot)(0 := (heap recording_bot 0)
                 \<lparr>audioChunks := audioChunks (heap recording_bot 0) @ [[3]]\<rparr>),
             effects := effects recording_bot @
               [ConsoleLogNum ''Original chunk size (bytes)'' (length [3 :: byte]),
                ConsoleLogNum ''Total audio size (bytes)''
                  (sum_list (map length (audioChunks (heap recording_bot 0)))
                   + length [3 :: byte])]\<rparr>)"
    by blast
  from thm2 l have 3: "processRecording ?env (guild_message ''g'') ''g'' 0 ?full =
          (case writeFile_result ?env of
             Inl e \<Rightarrow> Pair (Inl e)
           | Inr _ \<Rightarrow> transcribeAndReport ?env (guild_message ''g'')
                        (''recording_'' @ ''g'' @ ''.wav''))
            (?full\<lparr>effects := effects ?full @
               [ConsoleLogHeader 2 48000 16 (length (concat (audioChunks (heap ?full 0)))),
                FsWriteFile (''recording_'' @ ''g'' @ ''.wav'')
                  (specHeader (length (concat (audioChunks (heap ?full 0))))
                   @ concat (audioChunks (heap ?full 0)))]\<rparr>)"
    by blast
  have 4: "effects (snd (onChunk echo_codec 0 0 (BufferChunk [3]) recording_bot)) =
       [ConsoleLogNum ''Original chunk size (bytes)'' 1,
        ConsoleLogNum ''Total audio size (bytes)'' 3]"
    and 5: "fst (onChunk echo_codec 0 0 (BufferChunk [3]) recording_bot) = Inr 1"
    by (simp_all add: 2 h) (simp_all add: recording_bot_def)
  have 6: "processRecording ?env (guild_message ''g'') ''g'' 0 ?full =
       (Inl (Exn ''ENOSPC''),
        ?full\<lparr>effects := [ConsoleLogHeader 2 48000 16 5,
                           FsWriteFile ''recording_g.wav''
                             (specHeader 5 @ [1, 2, 3, 4, 5])]\<rparr>)"
  proof -
    have five: "Suc (Suc (Suc (Suc (Suc 0)))) = 5" by simp
    show ?thesis by (simp only: 3 w) (simp add: recording_bot_def five)
  qed
  show ?thesis
    using m n a b l 1 4 5 6 by simp
qed

end
